theory Spec2Isabelle
  imports Complex_Main "HOL-Library.Multiset" "HOL-Library.Product_Lexorder"
begin

section \<open>Active learning with a loss-prediction module: \<open>debug_main.py\<close>\<close>

text \<open>
  The development follows \<open>debug_main.py\<close> from the bottom up: the ranking loss
  \<open>LossPredLoss\<close>, one optimisation step and one epoch of \<open>train_epoch\<close>, the epoch loop
  \<open>train\<close>, and the trial body of \<open>__main__\<close> with its labeled and unlabeled index lists.

  Tensors are one-dimensional lists of reals; rounding and infinities of 32-bit floats are
  outside the model. The one value that the source produces from finite data and that is
  not a real, the quotient \<open>0 / 0\<close> of a mean over an empty tensor, is the constructor
  \<open>NaN\<close>. The networks, the data loaders, the random number generator, the plotting
  server and the sampler of \<open>strategy/sampler.py\<close> are collaborators whose code is not
  part of the file; they enter as parameters.
\<close>

subsection \<open>Exceptions\<close>

text \<open>
  The exceptions that the file can raise, by their Python class. \<open>NotImplementedError\<close>
  is constructed on line 75 of the source; \<open>ConfigurationError\<close> and
  \<open>PoolExhaustedError\<close> are the classes that the specification names. \<open>OtherError\<close>
  carries the class name of an exception raised by a collaborator.
\<close>

datatype py_error =
    AssertionError string
  | UnboundLocalError string
  | NotImplementedError
  | RuntimeError
  | IndexError
  | SystemExit
  | TypeError
  | ConfigurationError
  | PoolExhaustedError
  | OtherError string

subsection \<open>Scalars and tensors\<close>

datatype fl = Val real | NaN

datatype loss_value = Scalar fl | Vector "real list"

fun fadd :: "fl \<Rightarrow> fl \<Rightarrow> fl" where
  "fadd (Val a) (Val b) = Val (a + b)"
| "fadd _ _ = NaN"

fun fmul :: "fl \<Rightarrow> fl \<Rightarrow> fl" where
  "fmul (Val a) (Val b) = Val (a * b)"
| "fmul _ _ = NaN"

text \<open>\<open>torch.sum(t) / t.size(0)\<close>: the quotient is \<open>0 / 0\<close> for an empty tensor.\<close>

definition sum_over_size :: "real list \<Rightarrow> nat \<Rightarrow> fl" where
  "sum_over_size xs n = (if n = 0 then NaN else Val (sum_list xs / real n))"

text \<open>
  \<open>(t - t.flip(0))[:len(t)//2]\<close>: entry \<open>i\<close> is \<open>t[i] - t[len(t) - 1 - i]\<close>, for the first
  half of the positions.
\<close>

definition flip_diff :: "real list \<Rightarrow> real list" where
  "flip_diff t = take (length t div 2) (map2 (-) t (rev t))"

text \<open>\<open>2 * torch.sign(torch.clamp(target, min=0)) - 1\<close>, entry by entry.\<close>

definition one_of :: "real list \<Rightarrow> real list" where
  "one_of target = map (\<lambda>t. 2 * sgn (max t 0) - 1) target"

text \<open>
  The product \<open>one * input\<close> of two one-dimensional tensors: entry by entry when the
  sizes agree, a tensor of size 1 is broadcast, and any other pair of sizes raises
  \<open>RuntimeError\<close>.
\<close>

definition tensor_mul :: "real list \<Rightarrow> real list \<Rightarrow> py_error + real list" where
  "tensor_mul xs ys =
     (if length xs = length ys then Inr (map2 (*) xs ys)
      else if length xs = 1 then Inr (map (\<lambda>y. hd xs * y) ys)
      else if length ys = 1 then Inr (map (\<lambda>x. x * hd ys) xs)
      else Inl RuntimeError)"

text \<open>\<open>torch.clamp(margin - p, min=0)\<close> for the product \<open>p\<close>.\<close>

definition hinge :: "real \<Rightarrow> real list \<Rightarrow> real list" where
  "hinge margin p = map (\<lambda>v. max (margin - v) 0) p"

subsection \<open>\<open>LossPredLoss\<close> (lines 59 to 77)\<close>

text \<open>
  The first assertion fails on an odd length; the second compares a shape with the shape
  of its own flip and cannot fail. In the last branch the source builds a
  \<open>NotImplementedError\<close> object without raising it, leaves \<open>loss\<close> unassigned and fails
  in \<open>return loss\<close>. The product \<open>one * input\<close> is evaluated in the first two branches
  only.
\<close>

definition LossPredLoss :: "real list \<Rightarrow> real list \<Rightarrow> real \<Rightarrow> string \<Rightarrow> py_error + loss_value" where
  "LossPredLoss input target margin reduction =
     (if length input mod 2 \<noteq> 0 then Inl (AssertionError ''the batch size is not even.'')
      else
        let input' = flip_diff input;
            target' = flip_diff target;
            one = one_of target'
        in if reduction = ''mean'' then
             (case tensor_mul one input' of
                Inl e \<Rightarrow> Inl e
              | Inr p \<Rightarrow> Inr (Scalar (sum_over_size (hinge margin p) (length input'))))
           else if reduction = ''none'' then
             (case tensor_mul one input' of
                Inl e \<Rightarrow> Inl e
              | Inr p \<Rightarrow> Inr (Vector (hinge margin p)))
           else Inl (UnboundLocalError ''loss''))"


subsection \<open>One optimisation step of \<open>train_epoch\<close> (lines 90 to 198)\<close>

text \<open>
  The constants of \<open>debug_config\<close> and the options of \<open>args\<close> (the module
  \<open>debug_config\<close> is imported with \<open>*\<close> and is not part of the file) form one record.
  Python integers are \<open>int\<close>.
\<close>

record config =
  NUM_TRAIN :: int
  INITIALQUERY :: int
  ADDENDUM :: int
  SUBSET :: int
  CYCLES :: int
  EPOCH :: int
  MILESTONES :: "int list"
  MARGIN :: real
  WEIGHT :: real
  WEIGHT2 :: real
  WEIGHT_MSE :: real
  aux1 :: string
  aux2 :: string
  aux3 :: string
  middle_pick :: bool
  picked_plot :: bool

text \<open>
  What the networks and the library losses produce on one minibatch: the per-example
  cross-entropy losses, the predicted losses of the module (after \<open>view\<close>), the value of
  the metric loss \<open>loss_fuc(embeddings, labels)\<close>, the value of \<open>LogRatioLoss\<close>, and the
  value of the library loss that \<open>args.aux1\<close> selects among \<open>MSELoss\<close>, \<open>L1Loss\<close>,
  \<open>SmoothL1Loss\<close> and \<open>TripletMarginLoss\<close>.
\<close>

record batch =
  target_loss :: "real list"
  pred_loss :: "real list"
  metric_loss :: real
  logratio_loss :: real
  aux_loss :: real

text \<open>
  Lines 112 to 128. \<open>None\<close> is the result when no branch of the chain assigns
  \<open>m_module_loss\<close>. The call on line 115 leaves the reduction at its default \<open>mean\<close>,
  so the result is a scalar; a vector would fail in \<open>loss.backward()\<close>.
\<close>

definition module_loss :: "config \<Rightarrow> batch \<Rightarrow> py_error + fl option" where
  "module_loss cfg b =
     (if aux1 cfg = ''None'' then Inr (Some (Val 0))
      else if aux1 cfg = ''MarginRankingLoss'' then
        (case LossPredLoss (pred_loss b) (target_loss b) (MARGIN cfg) ''mean'' of
           Inl e \<Rightarrow> Inl e
         | Inr (Scalar v) \<Rightarrow> Inr (Some v)
         | Inr (Vector vs) \<Rightarrow> Inl RuntimeError)
      else if aux1 cfg = ''MSE'' \<or> aux1 cfg = ''L1'' \<or> aux1 cfg = ''SmoothL1'' then
        Inr (Some (Val (WEIGHT_MSE cfg * aux_loss b)))
      else if aux1 cfg = ''Triplet'' then Inr (Some (Val (aux_loss b)))
      else Inr None)"

text \<open>
  Lines 131 to 147: \<open>loss_fuc\<close> is assigned for six names of \<open>args.aux2\<close>; the call on
  line 147 is skipped for \<open>'None'\<close> and fails for every other name.
\<close>

definition metric_names :: "string list" where
  "metric_names = [''TripletMarginLoss'', ''NPairsLoss'', ''NCALoss'',
     ''GeneralizedLiftedStructureLoss'', ''NTXentLoss'', ''ContrastiveLoss'']"

definition module_tloss :: "config \<Rightarrow> batch \<Rightarrow> py_error + real" where
  "module_tloss cfg b =
     (if aux2 cfg = ''None'' then Inr 0
      else if aux2 cfg \<in> set metric_names then Inr (metric_loss b)
      else Inl (UnboundLocalError ''loss_fuc''))"

definition module_lloss :: "config \<Rightarrow> batch \<Rightarrow> real" where
  "module_lloss cfg b = (if aux3 cfg = ''LogRatioLoss'' then logratio_loss b else 0)"

text \<open>
  Lines 100 to 161 in the order of evaluation: the ranking loss, then the metric loss,
  then the sum on line 161, which is where an unassigned \<open>m_module_loss\<close> is read.
  The result is the row that the plot receives: backbone loss, auxiliary loss, metric
  loss, total loss.
\<close>

definition step_losses :: "config \<Rightarrow> batch \<Rightarrow> py_error + fl list" where
  "step_losses cfg b =
     (let m_backbone_loss = sum_over_size (target_loss b) (length (target_loss b))
      in case module_loss cfg b of
           Inl e \<Rightarrow> Inl e
         | Inr m \<Rightarrow>
            (case module_tloss cfg b of
               Inl e \<Rightarrow> Inl e
             | Inr m_module_tloss \<Rightarrow>
                (case m of
                   None \<Rightarrow> Inl (UnboundLocalError ''m_module_loss'')
                 | Some m_module_loss \<Rightarrow>
                     let m_module_lloss = module_lloss cfg b;
                         loss = fadd (fadd (fadd m_backbone_loss (fmul (Val (WEIGHT cfg)) m_module_loss))
                                  (Val (WEIGHT2 cfg * m_module_tloss))) (Val (0.1 * m_module_lloss))
                     in Inr [m_backbone_loss, m_module_loss, Val m_module_tloss, loss])))"

text \<open>
  The state that training changes and that the claims observe: the global counter
  \<open>iters\<close>, the number of optimiser steps taken (line 166 and 167, counted once), the
  number of scheduler steps (lines 231 and 232, counted once), and the dictionary
  \<open>plot_data\<close> with its lists \<open>X\<close> and \<open>Y\<close> (\<open>None\<close> when the argument is \<open>None\<close>).
  The weights of the networks are not part of the state.
\<close>

record train_state =
  iters :: nat
  opt_steps :: nat
  sched_steps :: nat
  plot_data :: "(nat list \<times> fl list list) option"

text \<open>
  The plotting server: \<open>vis.line\<close> receives the two lists and either returns or raises.
  \<open>None\<close> is the argument \<open>vis = None\<close>.
\<close>

type_synonym sink = "nat list \<Rightarrow> fl list list \<Rightarrow> py_error option"

text \<open>
  Lines 170 to 198. The two \<open>try\<close> blocks guard the conversions \<open>.item()\<close> of the
  auxiliary and the metric loss (which are the integer 0 when the term is off) and
  nothing else; the call \<open>vis.line\<close> stands outside of them.
\<close>

definition visualize :: "sink option \<Rightarrow> train_state \<Rightarrow> fl list \<Rightarrow> py_error \<times> train_state + train_state" where
  "visualize vis t row =
     (case vis of
        None \<Rightarrow> Inr t
      | Some line \<Rightarrow>
         (case plot_data t of
            None \<Rightarrow> Inr t
          | Some (X, Y) \<Rightarrow>
             if iters t mod 10 = 0 then
               (let X' = X @ [iters t]; Y' = Y @ [row];
                    t' = t\<lparr>plot_data := Some (X', Y')\<rparr>
                in case line X' Y' of Some e \<Rightarrow> Inl (e, t') | None \<Rightarrow> Inr t')
             else Inr t))"

text \<open>
  One iteration of the loop on line 90. An exception leaves the loop with the state as
  it is at that moment; the state is returned with the exception.
\<close>

definition train_step :: "config \<Rightarrow> sink option \<Rightarrow> train_state \<Rightarrow> batch \<Rightarrow> py_error \<times> train_state + train_state" where
  "train_step cfg vis t b =
     (let t1 = t\<lparr>iters := iters t + 1\<rparr>
      in case step_losses cfg b of
           Inl e \<Rightarrow> Inl (e, t1)
         | Inr row \<Rightarrow> visualize vis (t1\<lparr>opt_steps := opt_steps t1 + 1\<rparr>) row)"

fun train_epoch :: "config \<Rightarrow> sink option \<Rightarrow> train_state \<Rightarrow> batch list \<Rightarrow> py_error \<times> train_state + train_state" where
  "train_epoch cfg vis t [] = Inr t"
| "train_epoch cfg vis t (b # bs) =
     (case train_step cfg vis t b of
        Inl x \<Rightarrow> Inl x
      | Inr t' \<Rightarrow> train_epoch cfg vis t' bs)"

subsection \<open>\<open>train\<close> (lines 221 to 246)\<close>

text \<open>
  The loop over \<open>range(start_num_epoch, num_epochs)\<close>; the argument \<open>bs\<close> gives the
  minibatches of each epoch. The checkpoint branch on line 235 is guarded by \<open>False\<close>.
\<close>

fun train_epochs :: "config \<Rightarrow> sink option \<Rightarrow> (int \<Rightarrow> batch list) \<Rightarrow> train_state \<Rightarrow> int list \<Rightarrow> py_error \<times> train_state + train_state" where
  "train_epochs cfg vis bs t [] = Inr t"
| "train_epochs cfg vis bs t (epoch # es) =
     (case train_epoch cfg vis t (bs epoch) of
        Inl x \<Rightarrow> Inl x
      | Inr t' \<Rightarrow> train_epochs cfg vis bs (t'\<lparr>sched_steps := sched_steps t' + 1\<rparr>) es)"

definition train :: "config \<Rightarrow> sink option \<Rightarrow> (int \<Rightarrow> batch list) \<Rightarrow> train_state \<Rightarrow> int \<Rightarrow> int \<Rightarrow> py_error \<times> train_state + train_state" where
  "train cfg vis bs t start_num_epoch num_epochs =
     train_epochs cfg vis bs t [start_num_epoch..num_epochs - 1]"

subsection \<open>Lists of indices: slices, \<open>argsort\<close>, indexing by an index array\<close>

text \<open>
  A slice bound \<open>k\<close> of a list of length \<open>n\<close>: a negative bound counts from the end, and
  the result is clipped to \<open>0 \<dots> n\<close>. \<open>py_slice_from xs k\<close> is \<open>xs[k:]\<close> and
  \<open>py_slice_to xs k\<close> is \<open>xs[:k]\<close>. The bound \<open>-ADDENDUM\<close> is \<open>0\<close> when \<open>ADDENDUM\<close>
  is \<open>0\<close>.
\<close>

definition py_bound :: "nat \<Rightarrow> int \<Rightarrow> nat" where
  "py_bound n k = (if k < 0 then nat (max 0 (int n + k)) else min (nat k) n)"

definition py_slice_from :: "'a list \<Rightarrow> int \<Rightarrow> 'a list" where
  "py_slice_from xs k = drop (py_bound (length xs) k) xs"

definition py_slice_to :: "'a list \<Rightarrow> int \<Rightarrow> 'a list" where
  "py_slice_to xs k = take (py_bound (length xs) k) xs"

text \<open>
  \<open>np.argsort\<close> on line 318: the positions of the list in ascending order of their
  entries. The call leaves the kind of sort at its default, which does not fix the
  order of positions with equal entries; that order is the parameter \<open>tie\<close>, a rank
  for every position, which decides between equal entries. Positions that agree in
  entry and rank keep the order of the positions. Whatever the ranks are, the result is
  a permutation of the positions in ascending order of the entries, and every such
  permutation is the result for some ranks (\<open>rank_in\<close> below, the place of a position
  in that permutation).
\<close>

definition argsort :: "(nat \<Rightarrow> nat) \<Rightarrow> real list \<Rightarrow> nat list" where
  "argsort tie xs = sort_key (\<lambda>i. (xs ! i, tie i)) [0..<length xs]"

definition rank_in :: "nat list \<Rightarrow> nat \<Rightarrow> nat" where
  "rank_in arg i = length (takeWhile (\<lambda>j. j \<noteq> i) arg)"

text \<open>\<open>torch.tensor(subset)[arg]\<close>: a position outside of the tensor raises.\<close>

definition tensor_index :: "'a list \<Rightarrow> nat list \<Rightarrow> py_error + 'a list" where
  "tensor_index xs arg =
     (if \<forall>i \<in> set arg. i < length xs then Inr (map ((!) xs) arg) else Inl IndexError)"

subsection \<open>The trial body of \<open>__main__\<close> (lines 262 to 345)\<close>

text \<open>
  What \<open>Sampler\<close> hands back to its caller: the predicted scores, the true losses, the
  subpool, and the caller's list \<open>unlabeled_set\<close> as the call leaves it (the list is
  passed by reference).
\<close>

type_synonym sampler_result = "real list \<times> real list \<times> nat list \<times> nat list"

text \<open>
  The collaborators of one trial: \<open>random.shuffle\<close> under the seed of the trial, the
  minibatches that the training loader and the networks produce in a cycle for a list of
  training indices and an epoch, the function \<open>Sampler\<close> of \<open>strategy/sampler.py\<close>
  with the models of a cycle, the plotting server, and the ranks by which the sort of
  NumPy orders the positions of equal scores in a list of scores.
\<close>

record env =
  shuffle :: "nat list \<Rightarrow> nat list"
  batches :: "nat \<Rightarrow> nat list \<Rightarrow> int \<Rightarrow> batch list"
  Sampler :: "nat \<Rightarrow> nat list \<Rightarrow> py_error + sampler_result"
  vis :: "sink option"
  tie_order :: "real list \<Rightarrow> nat \<Rightarrow> nat"

text \<open>What the trial has done so far, in order.\<close>

datatype event =
    Trained int int "nat list"
  | Scored "nat list"
  | Tested
  | Acquired "nat list"
  | Saved

text \<open>
  The state of a trial: the two index lists, the index list of the sampler inside
  \<open>dataloaders['train']\<close>, the training state, and the events so far.
\<close>

record al_state =
  labeled_set :: "nat list"
  unlabeled_set :: "nat list"
  train_loader :: "nat list"
  training :: train_state
  trace :: "event list"

text \<open>Lines 271 to 280.\<close>

definition initial_split :: "env \<Rightarrow> config \<Rightarrow> train_state \<Rightarrow> al_state" where
  "initial_split ev cfg t0 =
     (let indices = shuffle ev [0..<nat (NUM_TRAIN cfg)];
          labeled = py_slice_to indices (INITIALQUERY cfg);
          unlabeled = py_slice_from indices (INITIALQUERY cfg)
      in \<lparr>labeled_set = labeled, unlabeled_set = unlabeled, train_loader = labeled,
          training = t0, trace = []\<rparr>)"

text \<open>A call of \<open>train\<close> from the cycle, on the current training loader.\<close>

definition train_phase :: "env \<Rightarrow> config \<Rightarrow> nat \<Rightarrow> al_state \<Rightarrow> int \<Rightarrow> int \<Rightarrow> py_error \<times> al_state + al_state" where
  "train_phase ev cfg c s a b =
     (case train cfg (vis ev) (batches ev c (train_loader s)) (training s) a b of
        Inl (e, t) \<Rightarrow> Inl (e, s\<lparr>training := t\<rparr>)
      | Inr t \<Rightarrow> Inr (s\<lparr>training := t, trace := trace s @ [Trained a b (train_loader s)]\<rparr>))"

text \<open>The call of \<open>Sampler\<close> on line 307 or 312.\<close>

definition score :: "env \<Rightarrow> nat \<Rightarrow> al_state \<Rightarrow> py_error \<times> al_state + (real list \<times> nat list) \<times> al_state" where
  "score ev c s =
     (case Sampler ev c (unlabeled_set s) of
        Inl e \<Rightarrow> Inl (e, s)
      | Inr (uncertainty, real_loss, subpool, unlabeled') \<Rightarrow>
          Inr ((uncertainty, subpool), s\<lparr>unlabeled_set := unlabeled', trace := trace s @ [Scored subpool]\<rparr>))"

text \<open>
  The two slices of \<open>torch.tensor(subset)[arg]\<close> on lines 328 to 332: the entries from
  \<open>-ADDENDUM\<close> on, which are picked, and the entries before, which are kept.
\<close>

definition acquisition :: "(nat \<Rightarrow> nat) \<Rightarrow> int \<Rightarrow> real list \<Rightarrow> nat list \<Rightarrow> py_error + nat list \<times> nat list" where
  "acquisition tie addendum uncertainty subpool =
     (let arg = argsort tie uncertainty
      in case tensor_index subpool arg of
           Inl e \<Rightarrow> Inl e
         | Inr sorted_subpool \<Rightarrow>
             Inr (py_slice_from sorted_subpool (- addendum), py_slice_to sorted_subpool (- addendum)))"

text \<open>
  Lines 314 to 337: the test, the plot of the picked examples followed by
  \<open>sys.exit()\<close>, and the update of the two lists and of the training loader.
\<close>

definition select :: "env \<Rightarrow> config \<Rightarrow> real list \<times> nat list \<Rightarrow> al_state \<Rightarrow> py_error \<times> al_state + al_state" where
  "select ev cfg r s =
     (let uncertainty = fst r; subpool = snd r;
          s1 = s\<lparr>trace := trace s @ [Tested]\<rparr>
      in if picked_plot cfg then Inl (SystemExit, s1)
         else
           (case acquisition (tie_order ev uncertainty) (ADDENDUM cfg) uncertainty subpool of
              Inl e \<Rightarrow> Inl (e, s1)
            | Inr (picked, kept) \<Rightarrow>
                let labeled = labeled_set s1 @ picked;
                    unlabeled = kept @ py_slice_from (unlabeled_set s1) (SUBSET cfg)
                in Inr (s1\<lparr>labeled_set := labeled, unlabeled_set := unlabeled,
                          train_loader := labeled, trace := trace s1 @ [Acquired picked]\<rparr>)))"

text \<open>The body of the loop on line 283. \<open>MILESTONES[0]\<close> raises on an empty list.\<close>

definition cycle :: "env \<Rightarrow> config \<Rightarrow> nat \<Rightarrow> al_state \<Rightarrow> py_error \<times> al_state + al_state" where
  "cycle ev cfg c s =
     (if middle_pick cfg then
        (case MILESTONES cfg of
           [] \<Rightarrow> Inl (IndexError, s)
         | m # ms \<Rightarrow>
            (case train_phase ev cfg c s 0 m of
               Inl x \<Rightarrow> Inl x
             | Inr s1 \<Rightarrow>
                (case score ev c s1 of
                   Inl x \<Rightarrow> Inl x
                 | Inr (r, s2) \<Rightarrow>
                    (case train_phase ev cfg c s2 m (EPOCH cfg) of
                       Inl x \<Rightarrow> Inl x
                     | Inr s3 \<Rightarrow> select ev cfg r s3))))
      else
        (case train_phase ev cfg c s 0 (EPOCH cfg) of
           Inl x \<Rightarrow> Inl x
         | Inr s1 \<Rightarrow>
            (case score ev c s1 of
               Inl x \<Rightarrow> Inl x
             | Inr (r, s2) \<Rightarrow> select ev cfg r s2)))"

text \<open>
  The loop over the cycles: the states after each completed cycle, and the exception
  that ended the loop, if one did.
\<close>

fun run_cycles :: "env \<Rightarrow> config \<Rightarrow> nat list \<Rightarrow> al_state \<Rightarrow> al_state list \<times> (py_error \<times> al_state) option" where
  "run_cycles ev cfg [] s = ([], None)"
| "run_cycles ev cfg (c # cs) s =
     (case cycle ev cfg c s of
        Inl x \<Rightarrow> ([], Some x)
      | Inr s' \<Rightarrow> (case run_cycles ev cfg cs s' of (states, r) \<Rightarrow> (s' # states, r)))"

text \<open>
  The points between the cycles of a trial: after the initial split and after each
  completed cycle.
\<close>

definition observable_points :: "env \<Rightarrow> config \<Rightarrow> train_state \<Rightarrow> al_state list" where
  "observable_points ev cfg t0 =
     (let s0 = initial_split ev cfg t0
      in s0 # fst (run_cycles ev cfg [0..<nat (CYCLES cfg)] s0))"

text \<open>
  One trial: the split, the cycles, the checkpoint on line 340. The checkpoint indexes
  the global \<open>models\<close>, which is the dictionary of the last cycle; when no cycle
  has run it is still the module \<open>torchvision.models\<close> of line 22, and indexing it
  raises \<open>TypeError\<close>. The test of line 314 runs on the test split of CIFAR-10, which
  is not empty, and leaves an event only.
\<close>

definition trial :: "env \<Rightarrow> config \<Rightarrow> train_state \<Rightarrow> py_error \<times> al_state + al_state" where
  "trial ev cfg t0 =
     (let s0 = initial_split ev cfg t0
      in case run_cycles ev cfg [0..<nat (CYCLES cfg)] s0 of
           (states, Some x) \<Rightarrow> Inl x
         | (states, None) \<Rightarrow>
             let s = last (s0 # states)
             in if states = [] then Inl (TypeError, s)
                else Inr (s\<lparr>trace := trace s @ [Saved]\<rparr>))"

text \<open>
  Modelled from the spec: the function \<open>Sampler\<close> of \<open>strategy/sampler.py\<close>, which is
  not part of the source at hand. The specification has it fail when the unlabeled
  list is shorter than the subpool size, draw the subpool at random without replacement,
  and return one score and one true loss per subpool entry, in the order of the subpool.
  The draw is the one that line 332 of the caller relies on: the list of the caller is
  permuted in place and the subpool is its first \<open>subset_size\<close> entries.
\<close>

definition Sampler_spec :: "(nat list \<Rightarrow> nat list) \<Rightarrow> (nat \<Rightarrow> nat \<Rightarrow> real) \<Rightarrow> (nat \<Rightarrow> nat \<Rightarrow> real) \<Rightarrow> int \<Rightarrow> nat \<Rightarrow> nat list \<Rightarrow> py_error + sampler_result" where
  "Sampler_spec shuf predicted true_loss subset_size c unlabeled =
     (if int (length unlabeled) < subset_size then Inl PoolExhaustedError
      else
        let unlabeled' = shuf unlabeled;
            subpool = py_slice_to unlabeled' subset_size
        in Inr (map (predicted c) subpool, map (true_loss c) subpool, subpool, unlabeled'))"

text \<open>
  What the caller relies on in any \<open>Sampler\<close>: the call leaves a permutation of the
  unlabeled list, the subpool is the first \<open>SUBSET\<close> entries of it, and there is one
  score per subpool entry.
\<close>

definition sampler_ok :: "config \<Rightarrow> (nat \<Rightarrow> nat list \<Rightarrow> py_error + sampler_result) \<Rightarrow> bool" where
  "sampler_ok cfg S \<longleftrightarrow>
     (\<forall>c u uncertainty real_loss subpool u'.
        S c u = Inr (uncertainty, real_loss, subpool, u') \<longrightarrow>
          mset u' = mset u \<and> subpool = py_slice_to u' (SUBSET cfg)
          \<and> length uncertainty = length subpool)"

text \<open>\<open>random.shuffle\<close> permutes its argument.\<close>

definition shuffle_ok :: "(nat list \<Rightarrow> nat list) \<Rightarrow> bool" where
  "shuffle_ok f \<longleftrightarrow> (\<forall>xs. mset (f xs) = mset xs)"

text \<open>The two lists partition the indices \<open>0 \<dots> n - 1\<close>, without repetition.\<close>

definition partition_ok :: "int \<Rightarrow> al_state \<Rightarrow> bool" where
  "partition_ok n s \<longleftrightarrow>
     set (labeled_set s) \<inter> set (unlabeled_set s) = {}
     \<and> set (labeled_set s) \<union> set (unlabeled_set s) = {0..<nat n}
     \<and> distinct (labeled_set s) \<and> distinct (unlabeled_set s)"

subsection \<open>A small run\<close>

text \<open>
  Four indices, one labeled at the start, a subpool of two and one index acquired in
  each of two cycles; two epochs of one minibatch each, trained with the ranking loss.
  The shuffles are the identity, the predicted score of index 1 is the highest, and
  equal scores are ordered by position.
\<close>

definition demo_batch :: batch where
  "demo_batch = \<lparr>target_loss = [3, 1, 5, 2], pred_loss = [2, 2, 2, 2], metric_loss = 0,
     logratio_loss = 0, aux_loss = 0\<rparr>"

definition demo_config :: config where
  "demo_config = \<lparr>NUM_TRAIN = 4, INITIALQUERY = 1, ADDENDUM = 1, SUBSET = 2, CYCLES = 2,
     EPOCH = 2, MILESTONES = [1], MARGIN = 1, WEIGHT = 1, WEIGHT2 = 1, WEIGHT_MSE = 1,
     aux1 = ''MarginRankingLoss'', aux2 = ''None'', aux3 = ''None'',
     middle_pick = False, picked_plot = False\<rparr>"

definition demo_score :: "nat \<Rightarrow> nat \<Rightarrow> real" where
  "demo_score c i = (if i = 1 then 5 else real i)"

definition demo_env :: env where
  "demo_env = \<lparr>shuffle = (\<lambda>xs. xs), batches = (\<lambda>c idx e. [demo_batch]),
     Sampler = Sampler_spec (\<lambda>xs. xs) demo_score (\<lambda>c i. 0) 2, vis = None,
     tie_order = (\<lambda>xs i. i)\<rparr>"

definition demo_train_state :: train_state where
  "demo_train_state = \<lparr>iters = 0, opt_steps = 0, sched_steps = 0, plot_data = Some ([], [])\<rparr>"

text \<open>
  Variations of the run: a minibatch of odd size, a plotting server that raises, a
  training state one iteration before an emission, the run with \<open>middle_pick\<close>, the
  runs with an addendum of 0 and with an addendum above the subpool size, and the run
  with a subpool size above the number of unlabeled indices.
\<close>

definition demo_odd_batch :: batch where
  "demo_odd_batch = \<lparr>target_loss = [3, 1, 5, 2, 4], pred_loss = [2, 2, 2, 2, 2], metric_loss = 0,
     logratio_loss = 0, aux_loss = 0\<rparr>"

definition demo_failing_sink :: sink where
  "demo_failing_sink X Y = Some (OtherError ''ConnectionError'')"

definition demo_train_state9 :: train_state where
  "demo_train_state9 = \<lparr>iters = 9, opt_steps = 9, sched_steps = 0, plot_data = Some ([], [])\<rparr>"

definition demo_midpick_config :: config where
  "demo_midpick_config = demo_config\<lparr>middle_pick := True\<rparr>"

definition demo_zero_addendum_config :: config where
  "demo_zero_addendum_config = demo_config\<lparr>ADDENDUM := 0\<rparr>"

definition demo_large_addendum_config :: config where
  "demo_large_addendum_config = demo_config\<lparr>ADDENDUM := 3\<rparr>"



section \<open>Properties\<close>

subsection \<open>The ranking loss\<close>

lemma one_of_entry: "2 * sgn (max t 0) - 1 = (if 0 < t then 1 else (-1::real))"
  by (simp add: sgn_if max_def)

lemma one_of_strict: "one_of ds = map (\<lambda>t. if 0 < t then 1 else -1) ds"
  by (simp add: one_of_def one_of_entry)

lemma length_flip_diff: "length (flip_diff t) = length t div 2"
  by (simp add: flip_diff_def)

lemma flip_diff_nth:
  assumes "i < length t div 2"
  shows "flip_diff t ! i = t ! i - t ! (length t - 1 - i)"
proof -
  have "i < length t" using assms by simp
  then show ?thesis
    using assms by (simp add: flip_diff_def rev_nth)
qed

text \<open>
  C3: on the batch of four with \<open>target_loss = [3, 1, 5, 2]\<close> and
  \<open>pred_loss = [2, 2, 2, 2]\<close> the pairs are \<open>(0, 3)\<close> and \<open>(1, 2)\<close>, the target
  differences are \<open>[1, -4]\<close>, the signs are \<open>[+1, -1]\<close>, the predicted differences are
  \<open>[0, 0]\<close>, each per-pair loss is the margin and the mean is the margin. The margin is
  a margin: it is not negative (the clamp at 0 returns 0 for a negative one).
\<close>

theorem ranking_loss_example:
  assumes "0 \<le> margin"
  shows "flip_diff [a, b, c, d] = [a - d, b - c]
    \<and> flip_diff [3, 1, 5, 2] = [1, -4]
    \<and> one_of (flip_diff [3, 1, 5, 2]) = [1, -1]
    \<and> flip_diff [2, 2, 2, 2] = [0, 0]
    \<and> LossPredLoss [2, 2, 2, 2] [3, 1, 5, 2] margin ''none'' = Inr (Vector [margin, margin])
    \<and> LossPredLoss [2, 2, 2, 2] [3, 1, 5, 2] margin ''mean'' = Inr (Scalar (Val margin))"
  using assms
  by (simp add: LossPredLoss_def flip_diff_def one_of_def tensor_mul_def hinge_def
      sum_over_size_def Let_def)

theorem ranking_loss_example_witness:
  "(0::real) \<le> 1
    \<and> LossPredLoss [2, 2, 2, 2] [3, 1, 5, 2] 1 ''none'' = Inr (Vector [1, 1])
    \<and> LossPredLoss [2, 2, 2, 2] [3, 1, 5, 2] 1 ''mean'' = Inr (Scalar (Val 1))"
  using ranking_loss_example [of 1] by simp

text \<open>
  C4, as the source has it: the sign of a pair is \<open>+1\<close> when the target difference is
  greater than 0 and \<open>-1\<close> otherwise, so a pair with target difference 0 gets \<open>-1\<close>.
  The per-pair terms are the entries of the result under \<open>reduction = 'none'\<close>, and
  the result under \<open>'mean'\<close> is their sum over the number of pairs.
\<close>

theorem ranking_sign_strict:
  assumes "even (length input)" and "length target = length input"
  shows "LossPredLoss input target margin ''none''
      = Inr (Vector (map2 (\<lambda>t p. max (margin - (if 0 < t then 1 else -1) * p) 0)
               (flip_diff target) (flip_diff input)))
    \<and> LossPredLoss input target margin ''mean''
      = Inr (Scalar (sum_over_size
               (map2 (\<lambda>t p. max (margin - (if 0 < t then 1 else -1) * p) 0)
                  (flip_diff target) (flip_diff input)) (length input div 2)))"
proof -
  have len: "length (one_of (flip_diff target)) = length (flip_diff input)"
    using assms(2) by (simp add: one_of_def length_flip_diff)
  have "map2 (*) (one_of (flip_diff target)) (flip_diff input)
      = map2 (\<lambda>t p. (if 0 < t then 1 else -1) * p) (flip_diff target) (flip_diff input)"
    by (simp add: one_of_strict zip_map1 case_prod_unfold)
  then have "tensor_mul (one_of (flip_diff target)) (flip_diff input)
      = Inr (map2 (\<lambda>t p. (if 0 < t then 1 else -1) * p) (flip_diff target) (flip_diff input))"
    using len by (simp add: tensor_mul_def)
  moreover have "hinge margin (map2 (\<lambda>t p. (if 0 < t then 1 else -1) * p) (flip_diff target) (flip_diff input))
      = map2 (\<lambda>t p. max (margin - (if 0 < t then 1 else -1) * p) 0) (flip_diff target) (flip_diff input)"
    by (simp add: hinge_def case_prod_unfold)
  ultimately show ?thesis
    using assms(1) by (simp add: LossPredLoss_def Let_def length_flip_diff)
qed

theorem ranking_sign_strict_witness:
  "even (length [3, 1 :: real]) \<and> length [2, 2 :: real] = length [3, 1 :: real]
    \<and> LossPredLoss [3, 1] [2, 2] 1 ''none'' = Inr (Vector [max (1 - (-1) * 2) 0])"
  using ranking_sign_strict [of "[3, 1]" "[2, 2]" 1]
  by (simp add: flip_diff_def)

text \<open>
  The claim C4 as stated, with ties counted as \<open>+1\<close>, fails on the pair of target
  losses \<open>[2, 2]\<close>: the target difference is 0, the sign is \<open>-1\<close>, and with predicted
  losses \<open>[3, 1]\<close> and margin 1 the per-pair loss is \<open>1 + 2 = 3\<close>, where the sign
  \<open>+1\<close> would give \<open>max(0, 1 - 2) = 0\<close>.
\<close>

theorem ranking_sign_tie_counterexample:
  "flip_diff [2, 2] = [0]
    \<and> one_of (flip_diff [2, 2]) = [-1]
    \<and> one_of (flip_diff [2, 2]) \<noteq> [1]
    \<and> LossPredLoss [3, 1] [2, 2] 1 ''none'' = Inr (Vector [3])
    \<and> LossPredLoss [3, 1] [2, 2] 1 ''none'' \<noteq> Inr (Vector [max (1 - 1 * (3 - 1)) 0])"
  by (simp add: LossPredLoss_def flip_diff_def one_of_def tensor_mul_def hinge_def Let_def)

text \<open>
  C10: on an input of even length, a reduction other than \<open>'mean'\<close> and \<open>'none'\<close> does
  not raise \<open>NotImplementedError\<close>; the call fails in \<open>return loss\<close> because the local
  variable \<open>loss\<close> was never assigned.
\<close>

theorem unknown_reduction_unbound:
  assumes "even (length input)" and "reduction \<noteq> ''mean''" and "reduction \<noteq> ''none''"
  shows "LossPredLoss input target margin reduction = Inl (UnboundLocalError ''loss'')
    \<and> LossPredLoss input target margin reduction \<noteq> Inl NotImplementedError"
  using assms by (simp add: LossPredLoss_def Let_def)

theorem unknown_reduction_unbound_witness:
  "even (length [1, 2 :: real]) \<and> ''sum'' \<noteq> ''mean'' \<and> ''sum'' \<noteq> ''none''
    \<and> LossPredLoss [1, 2] [4, 3] 1 ''sum'' = Inl (UnboundLocalError ''loss'')"
  using unknown_reduction_unbound [of "[1, 2]" "''sum''" "[4, 3]" 1] by simp

subsection \<open>Slices and \<open>argsort\<close>\<close>

lemma py_slice_append: "py_slice_to xs k @ py_slice_from xs k = xs"
  by (simp add: py_slice_to_def py_slice_from_def)

lemma mset_py_slices: "mset (py_slice_to xs k) + mset (py_slice_from xs k) = mset xs"
  by (metis mset_append py_slice_append)

lemma py_slice_last:
  assumes "0 < a"
  shows "py_slice_from xs (- a) = drop (length xs - nat a) xs"
    and "py_slice_to xs (- a) = take (length xs - nat a) xs"
proof -
  have "py_bound (length xs) (- a) = length xs - nat a"
    using assms by (simp add: py_bound_def nat_diff_distrib')
  then show "py_slice_from xs (- a) = drop (length xs - nat a) xs"
    and "py_slice_to xs (- a) = take (length xs - nat a) xs"
    by (simp_all add: py_slice_from_def py_slice_to_def)
qed

lemma length_py_slice_last:
  assumes "0 < a" and "a \<le> int (length xs)"
  shows "length (py_slice_from xs (- a)) = nat a"
  using assms by (simp add: py_slice_last(1))

lemma length_py_slice_to:
  assumes "0 \<le> k"
  shows "length (py_slice_to xs k) = min (nat k) (length xs)"
  using assms by (simp add: py_slice_to_def py_bound_def)

lemma mset_argsort: "mset (argsort tie xs) = mset [0..<length xs]"
  unfolding argsort_def by (rule mset_sort)

lemma set_argsort: "set (argsort tie xs) = {0..<length xs}"
  by (metis mset_argsort set_mset_mset set_upt)

lemma length_argsort: "length (argsort tie xs) = length xs"
  by (simp add: argsort_def)

lemma sorted_fst_lex:
  fixes ps :: "(real \<times> nat) list"
  assumes "sorted ps"
  shows "sorted (map fst ps)"
  using assms by (induction ps) (auto simp: less_eq_prod_def)

lemma sorted_argsort: "sorted (map ((!) xs) (argsort tie xs))"
proof -
  have "sorted (map (\<lambda>i. (xs ! i, tie i)) (argsort tie xs))"
    unfolding argsort_def by (rule sorted_sort_key)
  then have "sorted (map fst (map (\<lambda>i. (xs ! i, tie i)) (argsort tie xs)))"
    by (rule sorted_fst_lex)
  then show ?thesis by (simp add: comp_def)
qed

lemma argsort_tail_highest:
  assumes "i \<in> set (drop k (argsort tie xs))" and "j \<in> set (take k (argsort tie xs))"
  shows "xs ! j \<le> xs ! i"
proof -
  have "sorted (map ((!) xs) (take k (argsort tie xs)) @ map ((!) xs) (drop k (argsort tie xs)))"
    using sorted_argsort[of xs tie] by (metis append_take_drop_id map_append)
  then show ?thesis
    using assms by (auto simp: sorted_append)
qed

text \<open>
  The parameter \<open>tie\<close> leaves out no result of the sort: every permutation of the
  positions that is in ascending order of the entries is the result for the ranks that
  it gives to the positions itself.
\<close>

lemma rank_in_nth:
  assumes "distinct arg" and "i < length arg"
  shows "rank_in arg (arg ! i) = i"
proof -
  have "takeWhile (\<lambda>j. j \<noteq> arg ! i) arg = take i arg"
    using assms by (intro takeWhile_eq_take_P_nth) (auto simp: nth_eq_iff_index_eq)
  then show ?thesis using assms by (simp add: rank_in_def)
qed

lemma filter_eq_single:
  assumes "distinct ys" and "k \<in> set ys"
  shows "filter (\<lambda>x. k = x) ys = [k]"
  using assms by (induction ys) (auto simp: filter_empty_conv)

lemma argsort_reaches_every_order:
  assumes p: "mset arg = mset [0..<length xs]" and s: "sorted (map ((!) xs) arg)"
  shows "argsort (rank_in arg) xs = arg"
proof -
  let ?f = "\<lambda>i. (xs ! i, rank_in arg i)"
  have d: "distinct arg"
    using p by (metis distinct_upt mset_eq_imp_distinct_iff)
  have inj: "\<And>a b. a \<in> set arg \<Longrightarrow> b \<in> set arg \<Longrightarrow> ?f a = ?f b \<Longrightarrow> a = b"
    by (metis d in_set_conv_nth rank_in_nth snd_conv)
  have se: "set arg = set [0..<length xs]"
    using p by (metis mset_eq_setD)
  have f1: "\<And>k. k \<in> set arg \<Longrightarrow>
      filter (\<lambda>x. ?f k = ?f x) arg = filter (\<lambda>x. ?f k = ?f x) [0..<length xs]"
  proof -
    fix k assume k: "k \<in> set arg"
    have "filter (\<lambda>x. ?f k = ?f x) arg = filter (\<lambda>x. k = x) arg"
      by (rule filter_cong) (use inj k in auto)
    moreover have "filter (\<lambda>x. ?f k = ?f x) [0..<length xs] = filter (\<lambda>x. k = x) [0..<length xs]"
      by (rule filter_cong) (use inj k se in auto)
    moreover have "filter (\<lambda>x. k = x) arg = [k]"
      using d k by (rule filter_eq_single)
    moreover have "filter (\<lambda>x. k = x) [0..<length xs] = [k]"
      using k se by (intro filter_eq_single) auto
    ultimately show "filter (\<lambda>x. ?f k = ?f x) arg = filter (\<lambda>x. ?f k = ?f x) [0..<length xs]"
      by simp
  qed
  have so: "sorted (map ?f arg)"
    unfolding sorted_iff_nth_mono
  proof (intro allI impI)
    fix i j assume "i \<le> j" "j < length (map ?f arg)"
    then have ij: "i \<le> j" "j < length arg" "i < length arg" by simp_all
    have "xs ! (arg ! i) \<le> xs ! (arg ! j)"
      using s ij by (metis length_map nth_map sorted_iff_nth_mono)
    then show "map ?f arg ! i \<le> map ?f arg ! j"
      using ij d by (simp add: rank_in_nth less_eq_prod_def)
  qed
  show ?thesis
    unfolding argsort_def
    by (rule properties_for_sort_key) (use p f1 so in auto)
qed

lemma mset_map_nth:
  assumes "mset arg = mset [0..<length xs]"
  shows "mset (map ((!) xs) arg) = mset xs"
proof -
  have "mset (map ((!) xs) arg) = image_mset ((!) xs) (mset arg)" by simp
  also have "\<dots> = image_mset ((!) xs) (mset [0..<length xs])" using assms by simp
  also have "\<dots> = mset (map ((!) xs) [0..<length xs])" by simp
  also have "\<dots> = mset xs" by (simp add: map_nth)
  finally show ?thesis .
qed

lemma tensor_index_argsort:
  assumes "length unc = length sub"
  shows "tensor_index sub (argsort tie unc) = Inr (map ((!) sub) (argsort tie unc))"
  using assms by (simp add: tensor_index_def set_argsort)

lemma acquisition_eq:
  assumes "length unc = length sub"
  shows "acquisition tie a unc sub = Inr (py_slice_from (map ((!) sub) (argsort tie unc)) (- a),
           py_slice_to (map ((!) sub) (argsort tie unc)) (- a))"
  using assms by (simp add: acquisition_def tensor_index_argsort)

lemma acquisition_mset:
  assumes "length unc = length sub" and "acquisition tie a unc sub = Inr (picked, kept)"
  shows "mset picked + mset kept = mset sub"
proof -
  have "mset (map ((!) sub) (argsort tie unc)) = mset sub"
    using assms(1) by (intro mset_map_nth) (simp add: mset_argsort)
  then show ?thesis
    using assms acquisition_eq[OF assms(1), of tie a] by (metis Inr_inject Pair_inject add.commute mset_py_slices)
qed

subsection \<open>The index lists through a cycle\<close>

lemma train_phase_sets:
  assumes "train_phase ev cfg c s a b = Inr s'"
  shows "labeled_set s' = labeled_set s" "unlabeled_set s' = unlabeled_set s" "train_loader s' = train_loader s"
  using assms by (auto simp: train_phase_def split: sum.splits prod.splits)

lemma score_sets:
  assumes "sampler_ok cfg (Sampler ev)" "score ev c s = Inr ((unc, sub), s')"
  shows "labeled_set s' = labeled_set s" "mset (unlabeled_set s') = mset (unlabeled_set s)"
    "sub = py_slice_to (unlabeled_set s') (SUBSET cfg)" "length unc = length sub"
    "train_loader s' = train_loader s"
  using assms by (auto simp: score_def sampler_ok_def split: sum.splits prod.splits)

lemma select_sets:
  assumes "select ev cfg (unc, sub) s = Inr s'"
  obtains picked kept where "acquisition (tie_order ev unc) (ADDENDUM cfg) unc sub = Inr (picked, kept)"
    "labeled_set s' = labeled_set s @ picked"
    "unlabeled_set s' = kept @ py_slice_from (unlabeled_set s) (SUBSET cfg)"
    "train_loader s' = labeled_set s'"
    "trace s' = trace s @ [Tested, Acquired picked]"
  using assms by (auto simp: select_def Let_def split: if_splits sum.splits prod.splits)

lemma select_mset:
  assumes "length unc = length sub" "select ev cfg (unc, sub) s = Inr s'"
  shows "mset (labeled_set s' @ unlabeled_set s')
     = mset (labeled_set s) + mset sub + mset (py_slice_from (unlabeled_set s) (SUBSET cfg))"
proof -
  from assms(2) obtain picked kept where a: "acquisition (tie_order ev unc) (ADDENDUM cfg) unc sub = Inr (picked, kept)"
    and l: "labeled_set s' = labeled_set s @ picked"
    and u: "unlabeled_set s' = kept @ py_slice_from (unlabeled_set s) (SUBSET cfg)"
    by (rule select_sets)
  have "mset picked + mset kept = mset sub"
    by (rule acquisition_mset[OF assms(1) a])
  then show ?thesis
    by (simp add: l u add.assoc [symmetric])
qed

lemma score_select_mset:
  assumes ok: "sampler_ok cfg (Sampler ev)" and sc: "score ev c s1 = Inr ((unc, sub), s2)"
    and l3: "labeled_set s3 = labeled_set s2" and u3: "unlabeled_set s3 = unlabeled_set s2"
    and sel: "select ev cfg (unc, sub) s3 = Inr s'"
  shows "mset (labeled_set s' @ unlabeled_set s') = mset (labeled_set s1 @ unlabeled_set s1)"
proof -
  note f = score_sets[OF ok sc]
  have "mset (labeled_set s' @ unlabeled_set s')
      = mset (labeled_set s3) + mset sub + mset (py_slice_from (unlabeled_set s3) (SUBSET cfg))"
    by (rule select_mset[OF f(4) sel])
  also have "\<dots> = mset (labeled_set s1) + (mset (py_slice_to (unlabeled_set s2) (SUBSET cfg)) + mset (py_slice_from (unlabeled_set s2) (SUBSET cfg)))"
    using f(1,3) l3 u3 by (simp add: add.assoc)
  also have "\<dots> = mset (labeled_set s1) + mset (unlabeled_set s1)"
    by (simp only: mset_py_slices f(2))
  finally show ?thesis by simp
qed

text \<open>The steps of a completed cycle, in either mode.\<close>

lemma cycle_steps:
  assumes "cycle ev cfg c s = Inr s'"
  obtains s1 unc sub s2 s3 where
    "labeled_set s1 = labeled_set s" "unlabeled_set s1 = unlabeled_set s"
    "score ev c s1 = Inr ((unc, sub), s2)"
    "labeled_set s3 = labeled_set s2" "unlabeled_set s3 = unlabeled_set s2"
    "select ev cfg (unc, sub) s3 = Inr s'"
proof (cases "middle_pick cfg")
  case True
  with assms obtain m ms s1 unc sub s2 s3 where
    "train_phase ev cfg c s 0 m = Inr s1" "score ev c s1 = Inr ((unc, sub), s2)"
    "train_phase ev cfg c s2 m (EPOCH cfg) = Inr s3" "select ev cfg (unc, sub) s3 = Inr s'"
    by (auto simp: cycle_def split: list.splits sum.splits prod.splits)
  then show ?thesis
    using that[of s1 unc sub s2 s3] train_phase_sets by simp
next
  case False
  with assms obtain s1 unc sub s2 where
    "train_phase ev cfg c s 0 (EPOCH cfg) = Inr s1" "score ev c s1 = Inr ((unc, sub), s2)"
    "select ev cfg (unc, sub) s2 = Inr s'"
    by (auto simp: cycle_def split: list.splits sum.splits prod.splits)
  then show ?thesis
    using that[of s1 unc sub s2 s2] train_phase_sets by simp
qed

lemma cycle_mset:
  assumes ok: "sampler_ok cfg (Sampler ev)" and cy: "cycle ev cfg c s = Inr s'"
  shows "mset (labeled_set s' @ unlabeled_set s') = mset (labeled_set s @ unlabeled_set s)"
proof -
  from cy obtain s1 unc sub s2 s3 where
    a: "labeled_set s1 = labeled_set s" "unlabeled_set s1 = unlabeled_set s"
    and b: "score ev c s1 = Inr ((unc, sub), s2)"
    and c: "labeled_set s3 = labeled_set s2" "unlabeled_set s3 = unlabeled_set s2"
    and d: "select ev cfg (unc, sub) s3 = Inr s'"
    by (rule cycle_steps)
  show ?thesis
    using score_select_mset[OF ok b c d] a by simp
qed

lemma cycle_length:
  assumes ok: "sampler_ok cfg (Sampler ev)" and cy: "cycle ev cfg c s = Inr s'"
    and pos: "0 < ADDENDUM cfg" and le: "ADDENDUM cfg \<le> SUBSET cfg"
    and room: "ADDENDUM cfg \<le> int (length (unlabeled_set s))"
  shows "length (labeled_set s') = length (labeled_set s) + nat (ADDENDUM cfg)"
proof -
  from cy obtain s1 unc sub s2 s3 where
    a: "labeled_set s1 = labeled_set s" "unlabeled_set s1 = unlabeled_set s"
    and b: "score ev c s1 = Inr ((unc, sub), s2)"
    and c: "labeled_set s3 = labeled_set s2" "unlabeled_set s3 = unlabeled_set s2"
    and d: "select ev cfg (unc, sub) s3 = Inr s'"
    by (rule cycle_steps)
  note f = score_sets[OF ok b]
  have "length (unlabeled_set s2) = length (unlabeled_set s)"
    using f(2) a(2) by (metis mset_eq_length)
  then have "length sub = min (nat (SUBSET cfg)) (length (unlabeled_set s))"
    using f(3) pos le by (simp add: length_py_slice_to)
  then have big: "ADDENDUM cfg \<le> int (length sub)"
    using pos le room by simp
  from d obtain picked kept where e: "acquisition (tie_order ev unc) (ADDENDUM cfg) unc sub = Inr (picked, kept)"
    and l: "labeled_set s' = labeled_set s3 @ picked"
    by (rule select_sets)
  have "length (map ((!) sub) (argsort (tie_order ev unc) unc)) = length sub"
    using f(4) by (simp add: length_argsort)
  then have "length picked = nat (ADDENDUM cfg)"
    using e acquisition_eq[OF f(4), of "tie_order ev unc" "ADDENDUM cfg"]
      length_py_slice_last[OF pos, of "map ((!) sub) (argsort (tie_order ev unc) unc)"] big
    by simp
  then show ?thesis
    using l c(1) f(1) a(1) by simp
qed

lemma run_cycles_mset:
  assumes "sampler_ok cfg (Sampler ev)" "s' \<in> set (fst (run_cycles ev cfg cs s))"
  shows "mset (labeled_set s' @ unlabeled_set s') = mset (labeled_set s @ unlabeled_set s)"
  using assms(2)
proof (induction cs arbitrary: s)
  case Nil
  then show ?case by simp
next
  case (Cons c cs)
  show ?case
  proof (cases "cycle ev cfg c s")
    case (Inl x)
    with Cons.prems show ?thesis by simp
  next
    case (Inr s1)
    with Cons.prems have "s' = s1 \<or> s' \<in> set (fst (run_cycles ev cfg cs s1))"
      by (auto split: prod.splits)
    then show ?thesis
      using Cons.IH[of s1] cycle_mset[OF assms(1) Inr] by auto
  qed
qed

lemma run_cycles_length:
  assumes ok: "sampler_ok cfg (Sampler ev)"
    and pos: "0 < ADDENDUM cfg" and le: "ADDENDUM cfg \<le> SUBSET cfg"
    and i: "i < length (fst (run_cycles ev cfg cs s))"
    and room: "int (length (labeled_set s)) + (int i + 1) * ADDENDUM cfg
                 \<le> int (length (labeled_set s) + length (unlabeled_set s))"
  shows "int (length (labeled_set (fst (run_cycles ev cfg cs s) ! i)))
           = int (length (labeled_set s)) + (int i + 1) * ADDENDUM cfg"
  using i room
proof (induction cs arbitrary: s i)
  case Nil
  then show ?case by simp
next
  case (Cons c cs)
  show ?case
  proof (cases "cycle ev cfg c s")
    case (Inl x)
    with Cons.prems show ?thesis by simp
  next
    case (Inr s1)
    have "0 \<le> int i * ADDENDUM cfg" using pos by simp
    then have r0: "ADDENDUM cfg \<le> int (length (unlabeled_set s))"
      using Cons.prems(2) by (simp add: algebra_simps)
    have l1: "length (labeled_set s1) = length (labeled_set s) + nat (ADDENDUM cfg)"
      by (rule cycle_length[OF ok Inr pos le r0])
    have tot: "length (labeled_set s1) + length (unlabeled_set s1)
        = length (labeled_set s) + length (unlabeled_set s)"
      using cycle_mset[OF ok Inr] by (metis length_append mset_eq_length)
    have st: "fst (run_cycles ev cfg (c # cs) s) = s1 # fst (run_cycles ev cfg cs s1)"
      using Inr by (simp split: prod.splits)
    show ?thesis
    proof (cases i)
      case 0
      then show ?thesis using st l1 pos by simp
    next
      case (Suc j)
      have "j < length (fst (run_cycles ev cfg cs s1))"
        using Cons.prems(1) st Suc by simp
      moreover have "int (length (labeled_set s1)) + (int j + 1) * ADDENDUM cfg
          \<le> int (length (labeled_set s1) + length (unlabeled_set s1))"
        using Cons.prems(2) Suc l1 pos unfolding tot by (simp add: algebra_simps)
      ultimately have "int (length (labeled_set (fst (run_cycles ev cfg cs s1) ! j)))
          = int (length (labeled_set s1)) + (int j + 1) * ADDENDUM cfg"
        by (rule Cons.IH)
      then show ?thesis
        using st Suc l1 pos by (simp add: algebra_simps)
    qed
  qed
qed

lemma initial_split_mset:
  assumes "shuffle_ok (shuffle ev)"
  shows "mset (labeled_set (initial_split ev cfg t0) @ unlabeled_set (initial_split ev cfg t0))
     = mset [0..<nat (NUM_TRAIN cfg)]"
proof -
  have "mset (shuffle ev [0..<nat (NUM_TRAIN cfg)]) = mset [0..<nat (NUM_TRAIN cfg)]"
    using assms by (simp add: shuffle_ok_def)
  then show ?thesis
    by (simp add: initial_split_def Let_def mset_py_slices del: mset_upt)
qed

lemma initial_split_length:
  assumes "shuffle_ok (shuffle ev)" and "0 \<le> INITIALQUERY cfg" and "INITIALQUERY cfg \<le> NUM_TRAIN cfg"
  shows "int (length (labeled_set (initial_split ev cfg t0))) = INITIALQUERY cfg"
    and "int (length (labeled_set (initial_split ev cfg t0)) + length (unlabeled_set (initial_split ev cfg t0))) = NUM_TRAIN cfg"
proof -
  have "mset (shuffle ev [0..<nat (NUM_TRAIN cfg)]) = mset [0..<nat (NUM_TRAIN cfg)]"
    using assms(1) by (simp add: shuffle_ok_def)
  then have len: "length (shuffle ev [0..<nat (NUM_TRAIN cfg)]) = nat (NUM_TRAIN cfg)"
    by (metis length_upt mset_eq_length diff_zero)
  then show "int (length (labeled_set (initial_split ev cfg t0))) = INITIALQUERY cfg"
    using assms(2,3) by (simp add: initial_split_def Let_def length_py_slice_to)
  have "length (labeled_set (initial_split ev cfg t0) @ unlabeled_set (initial_split ev cfg t0)) = nat (NUM_TRAIN cfg)"
    using len by (simp add: initial_split_def Let_def py_slice_append)
  then show "int (length (labeled_set (initial_split ev cfg t0)) + length (unlabeled_set (initial_split ev cfg t0))) = NUM_TRAIN cfg"
    using assms(2,3) by simp
qed

lemma partition_of_mset:
  assumes "mset (labeled_set s @ unlabeled_set s) = mset [0..<nat n]"
  shows "partition_ok n s"
proof -
  have d: "distinct (labeled_set s @ unlabeled_set s)"
    using assms by (metis distinct_upt mset_eq_imp_distinct_iff)
  have "set (labeled_set s @ unlabeled_set s) = {0..<nat n}"
    using assms by (metis mset_eq_setD set_upt)
  with d show ?thesis by (simp add: partition_ok_def)
qed

lemma Sampler_spec_ok:
  assumes "shuffle_ok shuf"
  shows "sampler_ok cfg (Sampler_spec shuf p t (SUBSET cfg))"
  using assms by (auto simp: sampler_ok_def Sampler_spec_def shuffle_ok_def Let_def split: if_splits)

text \<open>
  C1: at every point between the cycles of a trial, after the initial split and after
  the update of each completed cycle, the labeled and the unlabeled list are disjoint
  and together hold exactly the indices \<open>0 \<dots> NUM_TRAIN - 1\<close>, each once. The
  collaborators are as the caller takes them to be: \<open>random.shuffle\<close> permutes, and
  \<open>Sampler\<close> leaves a permutation of the unlabeled list whose first \<open>SUBSET\<close> entries
  are the subpool, with one score per entry.
\<close>

theorem partition_invariant:
  assumes "shuffle_ok (shuffle ev)" "sampler_ok cfg (Sampler ev)"
    and "s \<in> set (observable_points ev cfg t0)"
  shows "partition_ok (NUM_TRAIN cfg) s"
proof -
  from assms(3) have "s = initial_split ev cfg t0
      \<or> s \<in> set (fst (run_cycles ev cfg [0..<nat (CYCLES cfg)] (initial_split ev cfg t0)))"
    by (simp add: observable_points_def Let_def)
  then have "mset (labeled_set s @ unlabeled_set s) = mset [0..<nat (NUM_TRAIN cfg)]"
    using run_cycles_mset[OF assms(2)] initial_split_mset[OF assms(1)] by metis
  then show ?thesis by (rule partition_of_mset)
qed

text \<open>
  C2, as the source has it: when the initial query is not negative, the addendum is
  greater than 0 and not above the subpool size, and \<open>INITIALQUERY + c * ADDENDUM\<close>
  indices exist (the pool is not exhausted), the labeled list has
  \<open>INITIALQUERY + c * ADDENDUM\<close> entries after \<open>c\<close> completed cycles: the initial split
  takes \<open>INITIALQUERY\<close> indices and each cycle appends \<open>ADDENDUM\<close>.
\<close>

theorem labeled_size:
  assumes "shuffle_ok (shuffle ev)" and "sampler_ok cfg (Sampler ev)"
    and "0 \<le> INITIALQUERY cfg" and "0 < ADDENDUM cfg" and "ADDENDUM cfg \<le> SUBSET cfg"
    and "c < length (observable_points ev cfg t0)"
    and "INITIALQUERY cfg + int c * ADDENDUM cfg \<le> NUM_TRAIN cfg"
  shows "int (length (labeled_set (observable_points ev cfg t0 ! c)))
           = INITIALQUERY cfg + int c * ADDENDUM cfg"
proof -
  let ?s0 = "initial_split ev cfg t0"
  have "0 \<le> int c * ADDENDUM cfg" using assms(4) by simp
  then have iq: "INITIALQUERY cfg \<le> NUM_TRAIN cfg" using assms(7) by simp
  note l0 = initial_split_length[OF assms(1,3) iq, of t0]
  show ?thesis
  proof (cases c)
    case 0
    then show ?thesis using l0(1) by (simp add: observable_points_def Let_def)
  next
    case (Suc i)
    have "i < length (fst (run_cycles ev cfg [0..<nat (CYCLES cfg)] ?s0))"
      using assms(6) Suc by (simp add: observable_points_def Let_def)
    moreover have "int (length (labeled_set ?s0)) + (int i + 1) * ADDENDUM cfg
        \<le> int (length (labeled_set ?s0) + length (unlabeled_set ?s0))"
      using assms(7) Suc unfolding l0 by (simp add: algebra_simps)
    ultimately have "int (length (labeled_set (fst (run_cycles ev cfg [0..<nat (CYCLES cfg)] ?s0) ! i)))
        = int (length (labeled_set ?s0)) + (int i + 1) * ADDENDUM cfg"
      by (rule run_cycles_length[OF assms(2,4,5)])
    then show ?thesis
      using Suc l0(1) by (simp add: observable_points_def Let_def algebra_simps)
  qed
qed


text \<open>
  The claim C2 as stated, with no condition on the addendum, fails on the small run
  while the pool still holds three unlabeled indices: with an addendum of 0 the slice
  \<open>[-0:]\<close> is the whole sorted subpool, and with an addendum of 3 the subpool of two
  cannot supply three indices. In both runs the labeled list has 3 entries after the
  first cycle, where the claim gives \<open>1 + 1 * 0 = 1\<close> and \<open>1 + 1 * 3 = 4\<close>.
\<close>

theorem labeled_size_counterexample:
  "map (\<lambda>s. length (labeled_set s))
       (observable_points demo_env demo_zero_addendum_config demo_train_state) = [1, 3]
    \<and> int 3 \<noteq> INITIALQUERY demo_zero_addendum_config + int 1 * ADDENDUM demo_zero_addendum_config
    \<and> map (\<lambda>s. length (unlabeled_set s))
       (observable_points demo_env demo_zero_addendum_config demo_train_state) = [3, 1]
    \<and> map (\<lambda>s. length (labeled_set s))
       (observable_points demo_env demo_large_addendum_config demo_train_state) = [1, 3]
    \<and> int 3 \<noteq> INITIALQUERY demo_large_addendum_config + int 1 * ADDENDUM demo_large_addendum_config"
  by code_simp

lemma demo_shuffle_ok: "shuffle_ok (shuffle demo_env)"
  by (simp add: demo_env_def shuffle_ok_def)

lemma demo_sampler_ok: "sampler_ok demo_config (Sampler demo_env)"
proof -
  have "shuffle_ok (\<lambda>xs. xs)" by (simp add: shuffle_ok_def)
  then have "sampler_ok demo_config (Sampler_spec (\<lambda>xs. xs) demo_score (\<lambda>c i. 0) (SUBSET demo_config))"
    by (rule Sampler_spec_ok)
  then show ?thesis by (simp add: demo_env_def demo_config_def)
qed

lemma demo_points:
  "map (\<lambda>s. (labeled_set s, unlabeled_set s)) (observable_points demo_env demo_config demo_train_state)
     = [([0], [1, 2, 3]), ([0, 1], [2, 3]), ([0, 1, 3], [2])]"
  by code_simp

theorem partition_invariant_witness:
  "shuffle_ok (shuffle demo_env) \<and> sampler_ok demo_config (Sampler demo_env)
    \<and> observable_points demo_env demo_config demo_train_state ! 2
        \<in> set (observable_points demo_env demo_config demo_train_state)
    \<and> labeled_set (observable_points demo_env demo_config demo_train_state ! 2) = [0, 1, 3]
    \<and> unlabeled_set (observable_points demo_env demo_config demo_train_state ! 2) = [2]
    \<and> partition_ok (NUM_TRAIN demo_config) (observable_points demo_env demo_config demo_train_state ! 2)"
proof -
  let ?ps = "observable_points demo_env demo_config demo_train_state"
  have "length (map (\<lambda>s. (labeled_set s, unlabeled_set s)) ?ps) = 3"
    by (simp only: demo_points) simp
  then have len: "length ?ps = 3" by simp
  then have mem: "?ps ! 2 \<in> set ?ps" by simp
  have "map (\<lambda>s. (labeled_set s, unlabeled_set s)) ?ps ! 2 = ([0, 1, 3], [2])"
    by (simp only: demo_points) simp
  then have v: "labeled_set (?ps ! 2) = [0, 1, 3]" "unlabeled_set (?ps ! 2) = [2]"
    using len by simp_all
  show ?thesis
    using partition_invariant [OF demo_shuffle_ok demo_sampler_ok mem] demo_shuffle_ok demo_sampler_ok mem v
    by simp
qed

theorem labeled_size_witness:
  "shuffle_ok (shuffle demo_env) \<and> sampler_ok demo_config (Sampler demo_env)
    \<and> 0 \<le> INITIALQUERY demo_config \<and> 0 < ADDENDUM demo_config
    \<and> ADDENDUM demo_config \<le> SUBSET demo_config
    \<and> 2 < length (observable_points demo_env demo_config demo_train_state)
    \<and> INITIALQUERY demo_config + int 2 * ADDENDUM demo_config \<le> NUM_TRAIN demo_config
    \<and> int (length (labeled_set (observable_points demo_env demo_config demo_train_state ! 2))) = 1 + 2 * 1"
proof -
  let ?ps = "observable_points demo_env demo_config demo_train_state"
  have "length (map (\<lambda>s. (labeled_set s, unlabeled_set s)) ?ps) = 3"
    by (simp only: demo_points) simp
  then have len: "2 < length ?ps" by simp
  have c: "0 \<le> INITIALQUERY demo_config" "0 < ADDENDUM demo_config"
    "ADDENDUM demo_config \<le> SUBSET demo_config"
    "INITIALQUERY demo_config + int 2 * ADDENDUM demo_config \<le> NUM_TRAIN demo_config"
    by (simp_all add: demo_config_def)
  have "int (length (labeled_set (?ps ! 2))) = INITIALQUERY demo_config + int 2 * ADDENDUM demo_config"
    by (rule labeled_size [OF demo_shuffle_ok demo_sampler_ok c(1) c(2) c(3) len c(4)])
  then have "int (length (labeled_set (?ps ! 2))) = 1 + 2 * 1"
    by (simp add: demo_config_def)
  then show ?thesis
    using demo_shuffle_ok demo_sampler_ok c len by simp
qed

subsection \<open>The selection\<close>

text \<open>
  C5, as the source has it: with one score per subpool entry and an addendum greater
  than 0, the positions of the subpool are put in ascending order of the predicted
  score (a permutation of the positions, whatever the order among equal scores), and
  the entries at the last \<open>ADDENDUM\<close> positions of that order, or all of them when the
  subpool has fewer, are picked: none of them scores below any of the others. When the
  plot of the picked examples is off, the picked entries are appended to the labeled
  list, and the others stay in the unlabeled list, in front of the entries that were not
  in the subpool; picked and kept entries together are the subpool. On the scored
  subpool \<open>[(5, 0.1), (7, 0.9), (9, 0.5)]\<close> an addendum of 1 picks index 7 and an
  addendum of 2 picks the indices 9 and 7.
\<close>

theorem selection_takes_highest_tail:
  assumes "length uncertainty = length subpool" and "0 < ADDENDUM cfg"
    and "\<not> picked_plot cfg"
  shows "mset (argsort (tie_order ev uncertainty) uncertainty) = mset [0..<length subpool]
    \<and> sorted (map ((!) uncertainty) (argsort (tie_order ev uncertainty) uncertainty))
    \<and> acquisition (tie_order ev uncertainty) (ADDENDUM cfg) uncertainty subpool
        = Inr (map ((!) subpool) (drop (length subpool - nat (ADDENDUM cfg))
                 (argsort (tie_order ev uncertainty) uncertainty)),
               map ((!) subpool) (take (length subpool - nat (ADDENDUM cfg))
                 (argsort (tie_order ev uncertainty) uncertainty)))
    \<and> mset (map ((!) subpool) (drop (length subpool - nat (ADDENDUM cfg))
                 (argsort (tie_order ev uncertainty) uncertainty)))
        + mset (map ((!) subpool) (take (length subpool - nat (ADDENDUM cfg))
                 (argsort (tie_order ev uncertainty) uncertainty))) = mset subpool
    \<and> length (drop (length subpool - nat (ADDENDUM cfg))
                 (argsort (tie_order ev uncertainty) uncertainty))
        = min (nat (ADDENDUM cfg)) (length subpool)
    \<and> (\<forall>i \<in> set (drop (length subpool - nat (ADDENDUM cfg))
                 (argsort (tie_order ev uncertainty) uncertainty)).
        \<forall>j \<in> set (take (length subpool - nat (ADDENDUM cfg))
                 (argsort (tie_order ev uncertainty) uncertainty)).
          uncertainty ! j \<le> uncertainty ! i)
    \<and> (\<exists>s'. select ev cfg (uncertainty, subpool) s = Inr s'
          \<and> labeled_set s' = labeled_set s
               @ map ((!) subpool) (drop (length subpool - nat (ADDENDUM cfg))
                   (argsort (tie_order ev uncertainty) uncertainty))
          \<and> unlabeled_set s' = map ((!) subpool) (take (length subpool - nat (ADDENDUM cfg))
                   (argsort (tie_order ev uncertainty) uncertainty))
               @ py_slice_from (unlabeled_set s) (SUBSET cfg))
    \<and> acquisition tie 1 [0.1, 0.9, 0.5] [5, 7, 9] = Inr ([7], [5, 9])
    \<and> acquisition tie 2 [0.1, 0.9, 0.5] [5, 7, 9] = Inr ([9, 7], [5])"
proof -
  let ?arg = "argsort (tie_order ev uncertainty) uncertainty"
  let ?k = "length subpool - nat (ADDENDUM cfg)"
  have perm: "mset ?arg = mset [0..<length subpool]"
    using assms(1) by (simp only: mset_argsort)
  have len: "length (map ((!) subpool) ?arg) = length subpool"
    using assms(1) by (simp add: length_argsort)
  have acq: "acquisition (tie_order ev uncertainty) (ADDENDUM cfg) uncertainty subpool
      = Inr (map ((!) subpool) (drop ?k ?arg), map ((!) subpool) (take ?k ?arg))"
    using acquisition_eq[OF assms(1), of "tie_order ev uncertainty" "ADDENDUM cfg"]
      py_slice_last[OF assms(2), of "map ((!) subpool) ?arg"]
    by (simp add: len drop_map take_map length_argsort assms(1))
  have all: "mset (map ((!) subpool) (drop ?k ?arg)) + mset (map ((!) subpool) (take ?k ?arg))
      = mset subpool"
    by (rule acquisition_mset[OF assms(1) acq])
  have n: "length (drop ?k ?arg) = min (nat (ADDENDUM cfg)) (length subpool)"
    using assms(1) by (simp add: length_argsort)
  have hi: "\<forall>i \<in> set (drop ?k ?arg). \<forall>j \<in> set (take ?k ?arg). uncertainty ! j \<le> uncertainty ! i"
    using argsort_tail_highest by blast
  have sel: "\<exists>s'. select ev cfg (uncertainty, subpool) s = Inr s'
          \<and> labeled_set s' = labeled_set s @ map ((!) subpool) (drop ?k ?arg)
          \<and> unlabeled_set s' = map ((!) subpool) (take ?k ?arg) @ py_slice_from (unlabeled_set s) (SUBSET cfg)"
    using assms(3) by (simp add: select_def acq Let_def)
  have a: "argsort tie [0.1, 0.9, 0.5] = [0, 2, 1]"
    by (simp add: argsort_def less_eq_prod_def)
  have ex1: "acquisition tie 1 [0.1, 0.9, 0.5] [5, 7, 9] = Inr ([7], [5, 9])"
    unfolding acquisition_def a
    by (simp add: tensor_index_def py_slice_from_def py_slice_to_def py_bound_def)
  have ex2: "acquisition tie 2 [0.1, 0.9, 0.5] [5, 7, 9] = Inr ([9, 7], [5])"
    unfolding acquisition_def a
    by (simp add: tensor_index_def py_slice_from_def py_slice_to_def py_bound_def)
  show ?thesis
    using perm sorted_argsort acq all n hi sel ex1 ex2 by blast
qed

theorem selection_takes_highest_tail_witness:
  "length [0.1, 0.9, 0.5 :: real] = length [5, 7, 9 :: nat] \<and> 0 < ADDENDUM demo_config
    \<and> \<not> picked_plot demo_config
    \<and> argsort (tie_order demo_env [0.1, 0.9, 0.5]) [0.1, 0.9, 0.5] = [0, 2, 1]
    \<and> (\<exists>s'. select demo_env demo_config ([0.1, 0.9, 0.5], [5, 7, 9])
               (initial_split demo_env demo_config demo_train_state) = Inr s'
          \<and> labeled_set s' = [0, 7] \<and> unlabeled_set s' = [5, 9, 3])"
proof -
  have c: "length [0.1, 0.9, 0.5 :: real] = length [5, 7, 9 :: nat]" "0 < ADDENDUM demo_config"
    "\<not> picked_plot demo_config"
    by (simp_all add: demo_config_def)
  have a: "argsort (tie_order demo_env [0.1, 0.9, 0.5]) [0.1, 0.9, 0.5] = [0, 2, 1]"
    by (simp add: argsort_def less_eq_prod_def)
  have s0: "labeled_set (initial_split demo_env demo_config demo_train_state) = [0]"
    "unlabeled_set (initial_split demo_env demo_config demo_train_state) = [1, 2, 3]"
    by code_simp+
  have k: "ADDENDUM demo_config = 1" "SUBSET demo_config = 2" by (simp_all add: demo_config_def)
  have "\<exists>s'. select demo_env demo_config ([0.1, 0.9, 0.5], [5, 7, 9]) (initial_split demo_env demo_config demo_train_state) = Inr s'
          \<and> labeled_set s' = labeled_set (initial_split demo_env demo_config demo_train_state)
               @ map ((!) [5, 7, 9]) (drop (length [5, 7, 9 :: nat] - nat (ADDENDUM demo_config))
                   (argsort (tie_order demo_env [0.1, 0.9, 0.5]) [0.1, 0.9, 0.5]))
          \<and> unlabeled_set s' = map ((!) [5, 7, 9]) (take (length [5, 7, 9 :: nat] - nat (ADDENDUM demo_config))
                   (argsort (tie_order demo_env [0.1, 0.9, 0.5]) [0.1, 0.9, 0.5]))
               @ py_slice_from (unlabeled_set (initial_split demo_env demo_config demo_train_state)) (SUBSET demo_config)"
    using selection_takes_highest_tail [OF c, of demo_env "initial_split demo_env demo_config demo_train_state"]
    by blast
  then have "\<exists>s'. select demo_env demo_config ([0.1, 0.9, 0.5], [5, 7, 9]) (initial_split demo_env demo_config demo_train_state) = Inr s'
          \<and> labeled_set s' = [0, 7] \<and> unlabeled_set s' = [5, 9, 3]"
    unfolding a k s0 by (simp add: py_slice_from_def py_bound_def)
  then show ?thesis
    using c a by blast
qed

text \<open>
  The claim C5 as stated, for every addendum, fails on its own scored subpool with an
  addendum of 0: the slice \<open>[-0:]\<close> is the whole sorted subpool, so all three indices
  are picked and none is kept, where the top 0 indices are none. With an addendum of 5
  the three indices of the subpool are picked, fewer than the addendum.
\<close>

theorem selection_zero_addendum_counterexample:
  "acquisition (\<lambda>i. i) 0 [0.1, 0.9, 0.5] [5, 7, 9] = Inr ([5, 9, 7], [])
    \<and> length [5, 9, 7 :: nat] \<noteq> nat 0
    \<and> acquisition (\<lambda>i. i) 5 [0.1, 0.9, 0.5] [5, 7, 9] = Inr ([5, 9, 7], [])
    \<and> length [5, 9, 7 :: nat] \<noteq> nat 5"
  by code_simp

text \<open>
  Equal scores: on the scores \<open>[1, 1, 0, 0]\<close> the ranks by position give the order
  \<open>[2, 3, 0, 1]\<close> and an addendum of 1 picks the entry at position 1; the reversed ranks
  give the order \<open>[3, 2, 1, 0]\<close> and pick the entry at position 0. Both are in ascending
  order of the scores, and the statements above hold for both.
\<close>

lemma acquisition_on_ties:
  "argsort (\<lambda>i. i) [1, 1, 0, 0] = [2, 3, 0, 1]"
  "acquisition (\<lambda>i. i) 1 [1, 1, 0, 0] [5, 7, 9, 11] = Inr ([7], [9, 11, 5])"
  "argsort (\<lambda>i. 4 - i) [1, 1, 0, 0] = [3, 2, 1, 0]"
  "acquisition (\<lambda>i. 4 - i) 1 [1, 1, 0, 0] [5, 7, 9, 11] = Inr ([5], [11, 9, 7])"
  "argsort (rank_in [3, 2, 1, 0]) [1, 1, 0, 0] = [3, 2, 1, 0]"
  by code_simp+

subsection \<open>Failures during an epoch\<close>

lemma train_step_counts:
  assumes "train_step cfg server t b = Inr t'"
  shows "opt_steps t' = opt_steps t + 1" and "iters t' = iters t + 1"
  using assms
  by (auto simp: train_step_def visualize_def Let_def split: sum.splits option.splits prod.splits if_splits)

lemma train_epoch_counts:
  assumes "train_epoch cfg server t bs = Inr t'"
  shows "opt_steps t' = opt_steps t + length bs \<and> iters t' = iters t + length bs"
  using assms
proof (induction bs arbitrary: t)
  case Nil
  then show ?case by simp
next
  case (Cons b bs)
  then obtain t1 where a: "train_step cfg server t b = Inr t1" and b: "train_epoch cfg server t1 bs = Inr t'"
    by (auto split: sum.splits)
  show ?case
    using Cons.IH[OF b] train_step_counts[OF a] by simp
qed

lemma train_epoch_append:
  assumes "train_epoch cfg server t pre = Inr t1"
  shows "train_epoch cfg server t (pre @ bs) = train_epoch cfg server t1 bs"
  using assms by (induction pre arbitrary: t) (auto split: sum.splits)

lemma odd_LossPredLoss:
  assumes "odd (length input)"
  shows "LossPredLoss input target margin reduction = Inl (AssertionError ''the batch size is not even.'')"
  using assms by (simp add: LossPredLoss_def odd_iff_mod_2_eq_one)

text \<open>
  C6, as the source has it: on a batch of odd size the ranking loss fails with
  \<open>AssertionError\<close> (message \<open>the batch size is not even.\<close>), whatever the targets, the
  margin and the reduction. Inside \<open>train_epoch\<close> with the ranking loss selected, the
  failure comes in the loss computation of that batch: the counter \<open>iters\<close> has been
  advanced, no optimiser step is taken for the batch, and every earlier batch of the
  epoch has had its optimiser step.
\<close>

theorem odd_batch_assertion:
  assumes "odd (length (pred_loss b))" and "aux1 cfg = ''MarginRankingLoss''"
    and "train_epoch cfg server t pre = Inr t1"
  shows "LossPredLoss (pred_loss b) (target_loss b) margin reduction
      = Inl (AssertionError ''the batch size is not even.'')
    \<and> train_epoch cfg server t (pre @ b # post)
      = Inl (AssertionError ''the batch size is not even.'', t1\<lparr>iters := iters t1 + 1\<rparr>)
    \<and> opt_steps t1 = opt_steps t + length pre"
proof -
  have "module_loss cfg b = Inl (AssertionError ''the batch size is not even.'')"
    using assms(1,2) by (simp add: module_loss_def odd_LossPredLoss)
  then have "step_losses cfg b = Inl (AssertionError ''the batch size is not even.'')"
    by (simp add: step_losses_def)
  then have "train_step cfg server t1 b = Inl (AssertionError ''the batch size is not even.'', t1\<lparr>iters := iters t1 + 1\<rparr>)"
    by (simp add: train_step_def)
  then have "train_epoch cfg server t (pre @ b # post)
      = Inl (AssertionError ''the batch size is not even.'', t1\<lparr>iters := iters t1 + 1\<rparr>)"
    by (simp add: train_epoch_append[OF assms(3)])
  then show ?thesis
    using odd_LossPredLoss[OF assms(1)] train_epoch_counts[OF assms(3)] by simp
qed

lemma demo_first_batch:
  "train_epoch demo_config None demo_train_state [demo_batch]
     = Inr \<lparr>iters = 1, opt_steps = 1, sched_steps = 0, plot_data = Some ([], [])\<rparr>"
  by code_simp

theorem odd_batch_assertion_witness:
  "odd (length (pred_loss demo_odd_batch)) \<and> aux1 demo_config = ''MarginRankingLoss''
    \<and> train_epoch demo_config None demo_train_state [demo_batch]
        = Inr \<lparr>iters = 1, opt_steps = 1, sched_steps = 0, plot_data = Some ([], [])\<rparr>
    \<and> train_epoch demo_config None demo_train_state ([demo_batch] @ demo_odd_batch # [demo_batch])
        = Inl (AssertionError ''the batch size is not even.'',
               \<lparr>iters = 2, opt_steps = 1, sched_steps = 0, plot_data = Some ([], [])\<rparr>)"
proof -
  have a: "odd (length (pred_loss demo_odd_batch))" by (simp add: demo_odd_batch_def)
  have b: "aux1 demo_config = ''MarginRankingLoss''" by (simp add: demo_config_def)
  show ?thesis
    using odd_batch_assertion [OF a b demo_first_batch, where post = "[demo_batch]"] a b demo_first_batch
    by simp
qed

text \<open>
  The claim C6 as stated fails on a batch of size 5: the exception is an
  \<open>AssertionError\<close> and not a \<open>ConfigurationError\<close>, and in an epoch whose first
  batch has size 4 and whose second batch has size 5 one optimiser step has been taken
  when the failure is detected.
\<close>

theorem odd_batch_counterexample:
  "LossPredLoss [2, 2, 2, 2, 2] [3, 1, 5, 2, 4] 1 ''mean''
      = Inl (AssertionError ''the batch size is not even.'')
    \<and> LossPredLoss [2, 2, 2, 2, 2] [3, 1, 5, 2, 4] 1 ''mean'' \<noteq> Inl ConfigurationError
    \<and> train_epoch demo_config None demo_train_state [demo_batch, demo_odd_batch]
      = Inl (AssertionError ''the batch size is not even.'',
             \<lparr>iters = 2, opt_steps = 1, sched_steps = 0, plot_data = Some ([], [])\<rparr>)"
  by code_simp

text \<open>The range of epochs of \<open>train\<close>, when it is not empty.\<close>

lemma upto_first: "start < stop \<Longrightarrow> [start..stop - 1] = start # [start + 1..stop - 1]"
  by (simp add: upto_rec1)

text \<open>
  C8, as the source has it: a failure that \<open>vis.line\<close> raises in the emission of an
  iteration is not caught. It leaves \<open>train_step\<close>, \<open>train_epoch\<close> and \<open>train\<close> as it
  was raised, after the optimiser step of that iteration and after the row was appended
  to \<open>plot_data\<close>; the remaining minibatches and epochs are not run.
\<close>

theorem sink_failure_propagates:
  assumes "server = Some line" and "plot_data t = Some (X, Y)" and "(iters t + 1) mod 10 = 0"
    and "step_losses cfg b = Inr row"
    and "line (X @ [iters t + 1]) (Y @ [row]) = Some e"
    and "bf start = b # bs" and "start < stop"
  shows "train_step cfg server t b
      = Inl (e, t\<lparr>iters := iters t + 1, opt_steps := opt_steps t + 1,
                  plot_data := Some (X @ [iters t + 1], Y @ [row])\<rparr>)
    \<and> train_epoch cfg server t (b # bs)
      = Inl (e, t\<lparr>iters := iters t + 1, opt_steps := opt_steps t + 1,
                  plot_data := Some (X @ [iters t + 1], Y @ [row])\<rparr>)
    \<and> train cfg server bf t start stop
      = Inl (e, t\<lparr>iters := iters t + 1, opt_steps := opt_steps t + 1,
                  plot_data := Some (X @ [iters t + 1], Y @ [row])\<rparr>)"
proof -
  have st: "train_step cfg server t b
      = Inl (e, t\<lparr>iters := iters t + 1, opt_steps := opt_steps t + 1,
                  plot_data := Some (X @ [iters t + 1], Y @ [row])\<rparr>)"
    using assms(1-5) by (simp add: train_step_def visualize_def Let_def)
  then have ep: "train_epoch cfg server t (b # bs)
      = Inl (e, t\<lparr>iters := iters t + 1, opt_steps := opt_steps t + 1,
                  plot_data := Some (X @ [iters t + 1], Y @ [row])\<rparr>)"
    by simp
  then have "train cfg server bf t start stop
      = Inl (e, t\<lparr>iters := iters t + 1, opt_steps := opt_steps t + 1,
                  plot_data := Some (X @ [iters t + 1], Y @ [row])\<rparr>)"
    using assms(6,7) by (simp add: train_def upto_first)
  with st ep show ?thesis by simp
qed

lemma demo_row: "step_losses demo_config demo_batch = Inr [Val (11 / 4), Val 1, Val 0, Val (15 / 4)]"
  by code_simp

theorem sink_failure_propagates_witness:
  "plot_data demo_train_state9 = Some ([], []) \<and> (iters demo_train_state9 + 1) mod 10 = 0
    \<and> step_losses demo_config demo_batch = Inr [Val (11 / 4), Val 1, Val 0, Val (15 / 4)]
    \<and> demo_failing_sink ([] @ [iters demo_train_state9 + 1]) ([] @ [[Val (11 / 4), Val 1, Val 0, Val (15 / 4)]])
        = Some (OtherError ''ConnectionError'')
    \<and> (0::int) < 2
    \<and> train_epoch demo_config (Some demo_failing_sink) demo_train_state9 (demo_batch # [demo_batch])
      = Inl (OtherError ''ConnectionError'',
             \<lparr>iters = 10, opt_steps = 10, sched_steps = 0,
               plot_data = Some ([10], [[Val (11 / 4), Val 1, Val 0, Val (15 / 4)]])\<rparr>)"
proof -
  have a: "plot_data demo_train_state9 = Some ([], [])" "(iters demo_train_state9 + 1) mod 10 = 0"
    by (simp_all add: demo_train_state9_def)
  have b: "demo_failing_sink ([] @ [iters demo_train_state9 + 1]) ([] @ [[Val (11 / 4), Val 1, Val 0, Val (15 / 4)]])
        = Some (OtherError ''ConnectionError'')"
    by (simp add: demo_failing_sink_def)
  have d: "(0::int) < 2" by simp
  have "train_epoch demo_config (Some demo_failing_sink) demo_train_state9 (demo_batch # [demo_batch])
      = Inl (OtherError ''ConnectionError'',
             demo_train_state9\<lparr>iters := iters demo_train_state9 + 1,
               opt_steps := opt_steps demo_train_state9 + 1,
               plot_data := Some ([] @ [iters demo_train_state9 + 1],
                                  [] @ [[Val (11 / 4), Val 1, Val 0, Val (15 / 4)]])\<rparr>)"
    using sink_failure_propagates [where server = "Some demo_failing_sink" and line = demo_failing_sink
        and t = demo_train_state9 and X = "[]" and Y = "[]" and cfg = demo_config
        and b = demo_batch and row = "[Val (11 / 4), Val 1, Val 0, Val (15 / 4)]"
        and e = "OtherError ''ConnectionError''" and bf = "\<lambda>e. [demo_batch, demo_batch]"
        and start = 0 and bs = "[demo_batch]" and stop = 2]
      a demo_row b d
    by blast
  then show ?thesis
    using a demo_row b d by (simp add: demo_train_state9_def)
qed

text \<open>
  The claim C8 as stated fails with a plotting server that raises: at the tenth
  iteration of a training run of two epochs with two minibatches each, the exception of
  the server ends \<open>train\<close> after one of the four optimiser steps of the run.
\<close>

theorem sink_failure_counterexample:
  "train demo_config (Some demo_failing_sink) (\<lambda>e. [demo_batch, demo_batch]) demo_train_state9 0 2
      = Inl (OtherError ''ConnectionError'',
             \<lparr>iters = 10, opt_steps = 10, sched_steps = 0,
               plot_data = Some ([10], [[Val (11 / 4), Val 1, Val 0, Val (15 / 4)]])\<rparr>)"
  by code_simp


subsection \<open>An unlabeled list shorter than the subpool\<close>




subsection \<open>The order of the steps with \<open>middle_pick\<close>\<close>

lemma train_phase_trace:
  assumes "train_phase ev cfg c s a b = Inr s'"
  shows "trace s' = trace s @ [Trained a b (train_loader s)]"
  using assms by (auto simp: train_phase_def split: sum.splits prod.splits)

lemma score_trace:
  assumes "score ev c s = Inr ((unc, sub), s')"
  shows "trace s' = trace s @ [Scored sub]" and "labeled_set s' = labeled_set s"
    and "train_loader s' = train_loader s"
  using assms by (auto simp: score_def split: sum.splits prod.splits)

text \<open>
  C9, as the source has it: with \<open>middle_pick\<close>, a completed cycle trains the epochs
  \<open>[0, MILESTONES[0])\<close>, calls \<open>Sampler\<close>, trains the epochs
  \<open>[MILESTONES[0], EPOCH)\<close> on the same training loader as the first phase, runs the
  test, and only then moves the picked indices to the labeled list and rebuilds the
  training loader.
\<close>

theorem mid_pick_order:
  assumes "middle_pick cfg" and "cycle ev cfg c s = Inr s'"
  shows "\<exists>m ms subpool picked. MILESTONES cfg = m # ms
    \<and> trace s' = trace s @ [Trained 0 m (train_loader s), Scored subpool,
                             Trained m (EPOCH cfg) (train_loader s), Tested, Acquired picked]
    \<and> labeled_set s' = labeled_set s @ picked
    \<and> train_loader s' = labeled_set s'"
proof -
  from assms obtain m ms s1 unc sub s2 s3 where m: "MILESTONES cfg = m # ms"
    and t1: "train_phase ev cfg c s 0 m = Inr s1" and sc: "score ev c s1 = Inr ((unc, sub), s2)"
    and t2: "train_phase ev cfg c s2 m (EPOCH cfg) = Inr s3" and se: "select ev cfg (unc, sub) s3 = Inr s'"
    by (auto simp: cycle_def split: list.splits sum.splits prod.splits)
  from se obtain picked kept where l: "labeled_set s' = labeled_set s3 @ picked"
    and tl: "train_loader s' = labeled_set s'" and tr: "trace s' = trace s3 @ [Tested, Acquired picked]"
    by (rule select_sets)
  have "trace s' = trace s @ [Trained 0 m (train_loader s), Scored sub,
                             Trained m (EPOCH cfg) (train_loader s), Tested, Acquired picked]"
    using tr train_phase_trace[OF t2] score_trace[OF sc] train_phase_trace[OF t1]
      train_phase_sets[OF t1] by simp
  moreover have "labeled_set s' = labeled_set s @ picked"
    using l train_phase_sets[OF t2] score_trace[OF sc] train_phase_sets[OF t1] by simp
  ultimately show ?thesis using m tl by blast
qed

lemma demo_midpick_cycle:
  "cycle demo_env demo_midpick_config 0 (initial_split demo_env demo_midpick_config demo_train_state)
     = Inr \<lparr>labeled_set = [0, 1], unlabeled_set = [2, 3], train_loader = [0, 1],
            training = \<lparr>iters = 2, opt_steps = 2, sched_steps = 2, plot_data = Some ([], [])\<rparr>,
            trace = [Trained 0 1 [0], Scored [1, 2], Trained 1 2 [0], Tested, Acquired [1]]\<rparr>"
  by code_simp

theorem mid_pick_order_witness:
  "middle_pick demo_midpick_config
    \<and> cycle demo_env demo_midpick_config 0 (initial_split demo_env demo_midpick_config demo_train_state)
     = Inr \<lparr>labeled_set = [0, 1], unlabeled_set = [2, 3], train_loader = [0, 1],
            training = \<lparr>iters = 2, opt_steps = 2, sched_steps = 2, plot_data = Some ([], [])\<rparr>,
            trace = [Trained 0 1 [0], Scored [1, 2], Trained 1 2 [0], Tested, Acquired [1]]\<rparr>
    \<and> (\<exists>m ms subpool picked. MILESTONES demo_midpick_config = m # ms
        \<and> [Trained 0 1 [0], Scored [1, 2], Trained 1 2 [0], Tested, Acquired [1]]
            = [] @ [Trained 0 m [0], Scored subpool, Trained m (EPOCH demo_midpick_config) [0], Tested, Acquired picked])"
proof -
  have a: "middle_pick demo_midpick_config"
    by (simp add: demo_midpick_config_def)
  have s0: "trace (initial_split demo_env demo_midpick_config demo_train_state) = []"
    "train_loader (initial_split demo_env demo_midpick_config demo_train_state) = [0]"
    by code_simp+
  show ?thesis
    using mid_pick_order [OF a demo_midpick_cycle] a demo_midpick_cycle
    unfolding s0 by simp
qed

text \<open>
  The claim C9 as stated fails on the small run with \<open>middle_pick\<close>: in both cycles the
  second training phase runs on the labeled list of the first phase (\<open>[0]\<close>, then
  \<open>[0, 1]\<close>), before the acquisition of that cycle.
\<close>

theorem mid_pick_second_phase_counterexample:
  "trial demo_env demo_midpick_config demo_train_state
     = Inr \<lparr>labeled_set = [0, 1, 3], unlabeled_set = [2], train_loader = [0, 1, 3],
            training = \<lparr>iters = 4, opt_steps = 4, sched_steps = 4, plot_data = Some ([], [])\<rparr>,
            trace = [Trained 0 1 [0], Scored [1, 2], Trained 1 2 [0], Tested, Acquired [1],
                     Trained 0 1 [0, 1], Scored [2, 3], Trained 1 2 [0, 1], Tested, Acquired [3],
                     Saved]\<rparr>"
  by code_simp

end
